theory Spec2Isabelle
  imports Main
begin

section \<open>Values on the wire\<close>

text \<open>
  Go decodes a JSON text into \<^verbatim>\<open>interface{}\<close> values: nil, bool, a number, string,
  \<^verbatim>\<open>[]interface{}\<close> and \<^verbatim>\<open>map[string]interface{}\<close>. A Go map has one value per key; it is
  written here as an association list read with \<^const>\<open>map_of\<close>. Numbers play no role
  in the dispatch code and are kept as integers.
\<close>

datatype json =
    JNull
  | JBool bool
  | JNum int
  | JStr string
  | JArr "json list"
  | JObj "(string \<times> json) list"

type_synonym jmap = "(string \<times> json) list"

text \<open>A Go panic. The only ones the library itself raises are failed type assertions;
  a user function may panic on its own.\<close>

datatype panic =
    InterfaceConversion string
  | UserPanic string

text \<open>\<^verbatim>\<open>v.(string)\<close> and \<^verbatim>\<open>v.(map[string]interface{})\<close> on the result of a map lookup:
  a missing key yields the nil interface, and the unchecked assertion panics on everything
  that is not of the asserted dynamic type.\<close>

fun assert_string :: "string \<Rightarrow> json option \<Rightarrow> panic + string" where
  "assert_string k (Some (JStr s)) = Inr s"
| "assert_string k v = Inl (InterfaceConversion k)"

fun assert_map :: "string \<Rightarrow> json option \<Rightarrow> panic + jmap" where
  "assert_map k (Some (JObj m)) = Inr m"
| "assert_map k v = Inl (InterfaceConversion k)"

text \<open>\<^verbatim>\<open>data["ackId"] != nil\<close>: false for a missing key and for JSON null.\<close>

fun is_nil :: "json option \<Rightarrow> bool" where
  "is_nil None = True"
| "is_nil (Some JNull) = True"
| "is_nil (Some v) = False"

section \<open>The server's objects\<close>

type_synonym cref = nat
type_synonym rref = nat
type_synonym sref = nat
type_synonym fref = nat

text \<open>
  An \<^verbatim>\<open>EventListener\<close> stored in \<^verbatim>\<open>Client.Events\<close> is either a function value supplied by
  the user (a reference into the user's code) or the closure that \<^verbatim>\<open>Once\<close> builds, which
  captures the event name and the wrapped listener.
\<close>

datatype listener =
    Fn fref
  | OnceWrapper string listener

record conn =
  conn_closed :: bool
  sent :: "json list"

record client =
  client_Id :: string
  Events :: "string \<rightharpoonup> listener"
  socket :: sref

record room =
  room_Id :: string
  clients :: "cref list"
  joinedHandler :: "fref option"
  leftHandler :: "fref option"

record upgrader =
  ReadBufferSize :: int
  WriteBufferSize :: int

text \<open>
  The \<^verbatim>\<open>IgoServer\<close> together with the objects its pointers refer to. \<^verbatim>\<open>*Client\<close>, \<^verbatim>\<open>*Room\<close>
  and \<^verbatim>\<open>*ws.Conn\<close> are references into three stores; a reference stays valid for ever (Go
  is garbage collected), so the stores are total. Fresh references come from counters.
\<close>

record world =
  Clients :: "cref list"
  Rooms :: "rref list"
  server_upgrader :: upgrader
  preConnectHandler :: "fref option"
  connectedHandler :: "fref option"
  disconnectedHandler :: "fref option"
  errHandler :: "fref option"
  client_at :: "cref \<Rightarrow> client"
  room_at :: "rref \<Rightarrow> room"
  conn_at :: "sref \<Rightarrow> conn"
  next_client :: cref
  next_room :: rref
  next_conn :: sref

text \<open>
  What the user's function values do when called. Each is a function of the whole
  \<^typ>\<open>world\<close>: user code holds the server and client pointers and may call any method.
  \<open>Inl\<close> is a panic inside the user's function.
\<close>

record user_code =
  listener_fn :: "fref \<Rightarrow> cref \<Rightarrow> jmap \<Rightarrow> world \<Rightarrow> panic + (json \<times> world)"
  client_fn :: "fref \<Rightarrow> cref \<Rightarrow> world \<Rightarrow> panic + world"
  conn_fn :: "fref \<Rightarrow> sref \<Rightarrow> world \<Rightarrow> panic + world"
  err_fn :: "fref \<Rightarrow> world \<Rightarrow> panic + world"

text \<open>The calls the library makes into user code, in order. The log is kept beside the
  world, out of the reach of user code.\<close>

datatype call =
    ListenerCall fref cref jmap
  | ClientCall fref cref
  | ConnCall fref sref
  | ErrCall fref

type_synonym state = "world \<times> call list"

section \<open>client.go\<close>

definition createClient :: "sref \<Rightarrow> string \<Rightarrow> client" where
  "createClient sock uuid = \<lparr>client_Id = uuid, Events = Map.empty, socket = sock\<rparr>"

text \<open>\<^verbatim>\<open>WriteJSON\<close> of the two-key map. The write fails, and nothing is sent, on a closed
  connection; the error is the method's result.\<close>

definition frame :: "string \<Rightarrow> json \<Rightarrow> json" where
  "frame eventName d = JObj [(''event'', JStr eventName), (''data'', d)]"

definition WriteJSON :: "sref \<Rightarrow> json \<Rightarrow> world \<Rightarrow> bool \<times> world" where
  "WriteJSON k v w =
     (if conn_closed (conn_at w k) then (False, w)
      else (True, w\<lparr>conn_at := (conn_at w)(k := (conn_at w k)\<lparr>sent := sent (conn_at w k) @ [v]\<rparr>)\<rparr>))"

definition Emit :: "cref \<Rightarrow> string \<Rightarrow> json \<Rightarrow> world \<Rightarrow> bool \<times> world" where
  "Emit c eventName d w = WriteJSON (socket (client_at w c)) (frame eventName d) w"

definition Close :: "cref \<Rightarrow> world \<Rightarrow> world" where
  "Close c w =
     (let k = socket (client_at w c)
      in w\<lparr>conn_at := (conn_at w)(k := (conn_at w k)\<lparr>conn_closed := True\<rparr>)\<rparr>)"

definition set_Events :: "cref \<Rightarrow> (string \<rightharpoonup> listener) \<Rightarrow> world \<Rightarrow> world" where
  "set_Events c ev w = w\<lparr>client_at := (client_at w)(c := (client_at w c)\<lparr>Events := ev\<rparr>)\<rparr>"

definition On :: "cref \<Rightarrow> string \<Rightarrow> listener \<Rightarrow> world \<Rightarrow> world" where
  "On c eventName l w = set_Events c ((Events (client_at w c))(eventName \<mapsto> l)) w"

definition Once :: "cref \<Rightarrow> string \<Rightarrow> listener \<Rightarrow> world \<Rightarrow> world" where
  "Once c eventName l w =
     set_Events c ((Events (client_at w c))(eventName \<mapsto> OnceWrapper eventName l)) w"

definition Off :: "cref \<Rightarrow> string \<Rightarrow> world \<Rightarrow> world" where
  "Off c eventName w = set_Events c ((Events (client_at w c))(eventName := None)) w"

text \<open>Calling an \<^verbatim>\<open>EventListener\<close>. The closure of \<^verbatim>\<open>Once\<close> deletes the entry of the
  client it is called with, then calls the wrapped listener.\<close>

fun call_listener ::
  "user_code \<Rightarrow> listener \<Rightarrow> cref \<Rightarrow> jmap \<Rightarrow> state \<Rightarrow> panic + (json \<times> state)" where
  "call_listener U (Fn f) c d (w, tr) =
     (case listener_fn U f c d w of
        Inl p \<Rightarrow> Inl p
      | Inr (v, w') \<Rightarrow> Inr (v, (w', tr @ [ListenerCall f c d])))"
| "call_listener U (OnceWrapper eventName l) c d (w, tr) =
     call_listener U l c d (Off c eventName w, tr)"

definition handleClientData :: "user_code \<Rightarrow> cref \<Rightarrow> jmap \<Rightarrow> state \<Rightarrow> panic + state" where
  "handleClientData U c data s =
     (case assert_string ''event'' (map_of data ''event'') of
        Inl p \<Rightarrow> Inl p
      | Inr eventName \<Rightarrow>
     (case assert_map ''data'' (map_of data ''data'') of
        Inl p \<Rightarrow> Inl p
      | Inr eventData \<Rightarrow>
     (case (if \<not> is_nil (map_of data ''ackId'')
            then assert_string ''ackId'' (map_of data ''ackId'') else Inr '''') of
        Inl p \<Rightarrow> Inl p
      | Inr ackId \<Rightarrow>
     (case Events (client_at (fst s) c) eventName of
        None \<Rightarrow> Inr s
      | Some l \<Rightarrow>
     (case call_listener U l c eventData s of
        Inl p \<Rightarrow> Inl p
      | Inr (result, (w', tr')) \<Rightarrow>
          if ackId \<noteq> ''''
          then Inr (snd (Emit c (eventName @ ''@ack:'' @ ackId) (JObj [(''result'', result)]) w'), tr')
          else Inr (w', tr'))))))"

text \<open>The search loops of \<^verbatim>\<open>Leave\<close>, \<^verbatim>\<open>DeleteRoom\<close> and \<^verbatim>\<open>wsReader\<close>: the index of the first
  element equal to the pointer, and \<^verbatim>\<open>append(xs[:i], xs[i+1:]...)\<close>.\<close>

fun index_of :: "'a \<Rightarrow> 'a list \<Rightarrow> nat option" where
  "index_of c [] = None"
| "index_of c (x # xs) =
     (if x = c then Some 0 else map_option Suc (index_of c xs))"

definition delete_at :: "nat \<Rightarrow> 'a list \<Rightarrow> 'a list" where
  "delete_at i xs = take i xs @ drop (Suc i) xs"

definition remove_first :: "'a \<Rightarrow> 'a list \<Rightarrow> 'a list" where
  "remove_first c xs = (case index_of c xs of None \<Rightarrow> xs | Some i \<Rightarrow> delete_at i xs)"

text \<open>\<^verbatim>\<open>if handler != nil { handler(c) }\<close> for the hooks that take a client.\<close>

definition call_client_hook :: "user_code \<Rightarrow> fref option \<Rightarrow> cref \<Rightarrow> state \<Rightarrow> panic + state" where
  "call_client_hook U h c s =
     (case h of
        None \<Rightarrow> Inr s
      | Some f \<Rightarrow>
          (case client_fn U f c (fst s) of
             Inl p \<Rightarrow> Inl p
           | Inr w' \<Rightarrow> Inr (w', snd s @ [ClientCall f c])))"

definition set_clients :: "rref \<Rightarrow> cref list \<Rightarrow> world \<Rightarrow> world" where
  "set_clients r cs w = w\<lparr>room_at := (room_at w)(r := (room_at w r)\<lparr>clients := cs\<rparr>)\<rparr>"

definition Join :: "user_code \<Rightarrow> cref \<Rightarrow> rref \<Rightarrow> state \<Rightarrow> panic + state" where
  "Join U c r s =
     (let w = set_clients r (clients (room_at (fst s) r) @ [c]) (fst s)
      in call_client_hook U (joinedHandler (room_at w r)) c (w, snd s))"

definition Leave :: "user_code \<Rightarrow> cref \<Rightarrow> rref \<Rightarrow> state \<Rightarrow> panic + state" where
  "Leave U c r s =
     (let w = set_clients r (remove_first c (clients (room_at (fst s) r))) (fst s)
      in call_client_hook U (leftHandler (room_at w r)) c (w, snd s))"

section \<open>room.go\<close>

definition OnClientJoined :: "rref \<Rightarrow> fref option \<Rightarrow> world \<Rightarrow> world" where
  "OnClientJoined r h w = w\<lparr>room_at := (room_at w)(r := (room_at w r)\<lparr>joinedHandler := h\<rparr>)\<rparr>"

definition OnClientLeft :: "rref \<Rightarrow> fref option \<Rightarrow> world \<Rightarrow> world" where
  "OnClientLeft r h w = w\<lparr>room_at := (room_at w)(r := (room_at w r)\<lparr>leftHandler := h\<rparr>)\<rparr>"

text \<open>The broadcast loop shared by the four emitters: every element but the excepted
  pointer gets \<^verbatim>\<open>Emit\<close>, whose error is dropped.\<close>

fun emit_loop :: "cref option \<Rightarrow> cref list \<Rightarrow> string \<Rightarrow> json \<Rightarrow> world \<Rightarrow> world" where
  "emit_loop ex [] eventName d w = w"
| "emit_loop ex (c # cs) eventName d w =
     (if Some c \<noteq> ex then emit_loop ex cs eventName d (snd (Emit c eventName d w))
      else emit_loop ex cs eventName d w)"

definition Room_Emit :: "rref \<Rightarrow> string \<Rightarrow> json \<Rightarrow> world \<Rightarrow> world" where
  "Room_Emit r eventName d w = emit_loop None (clients (room_at w r)) eventName d w"

definition Room_EmitExcept :: "rref \<Rightarrow> cref \<Rightarrow> string \<Rightarrow> json \<Rightarrow> world \<Rightarrow> world" where
  "Room_EmitExcept r c eventName d w = emit_loop (Some c) (clients (room_at w r)) eventName d w"

section \<open>server.go\<close>

definition CreateIgoServer :: "upgrader option \<Rightarrow> world" where
  "CreateIgoServer options =
     \<lparr>Clients = [], Rooms = [],
      server_upgrader =
        (case options of
           None \<Rightarrow> \<lparr>ReadBufferSize = 1024, WriteBufferSize = 1024\<rparr>
         | Some opts \<Rightarrow> opts),
      preConnectHandler = None, connectedHandler = None,
      disconnectedHandler = None, errHandler = None,
      client_at = (\<lambda>_. createClient 0 []),
      room_at = (\<lambda>_. \<lparr>room_Id = [], clients = [], joinedHandler = None, leftHandler = None\<rparr>),
      conn_at = (\<lambda>_. \<lparr>conn_closed = False, sent = []\<rparr>),
      next_client = 0, next_room = 0, next_conn = 0\<rparr>"

definition OnPreConnect :: "fref option \<Rightarrow> world \<Rightarrow> world" where
  "OnPreConnect h w = w\<lparr>preConnectHandler := h\<rparr>"

definition OnConnected :: "fref option \<Rightarrow> world \<Rightarrow> world" where
  "OnConnected h w = w\<lparr>connectedHandler := h\<rparr>"

definition OnDisconnected :: "fref option \<Rightarrow> world \<Rightarrow> world" where
  "OnDisconnected h w = w\<lparr>disconnectedHandler := h\<rparr>"

definition Server_Emit :: "string \<Rightarrow> json \<Rightarrow> world \<Rightarrow> world" where
  "Server_Emit eventName d w = emit_loop None (Clients w) eventName d w"

definition Server_EmitExcept :: "cref \<Rightarrow> string \<Rightarrow> json \<Rightarrow> world \<Rightarrow> world" where
  "Server_EmitExcept c eventName d w = emit_loop (Some c) (Clients w) eventName d w"

definition CreateRoom :: "string \<Rightarrow> world \<Rightarrow> rref \<times> world" where
  "CreateRoom name w =
     (let r = next_room w
      in (r, w\<lparr>room_at := (room_at w)
                  (r := \<lparr>room_Id = name, clients = [], joinedHandler = None, leftHandler = None\<rparr>),
               Rooms := Rooms w @ [r],
               next_room := Suc r\<rparr>))"

fun first_named :: "(rref \<Rightarrow> room) \<Rightarrow> string \<Rightarrow> rref list \<Rightarrow> rref option" where
  "first_named h name [] = None"
| "first_named h name (r # rs) =
     (if room_Id (h r) = name then Some r else first_named h name rs)"

definition GetRoom :: "string \<Rightarrow> world \<Rightarrow> rref option" where
  "GetRoom name w = first_named (room_at w) name (Rooms w)"

definition DeleteRoom :: "rref \<Rightarrow> world \<Rightarrow> world" where
  "DeleteRoom r w = w\<lparr>Rooms := remove_first r (Rooms w)\<rparr>"

text \<open>
  The handler that \<^verbatim>\<open>Handle\<close> returns, for one request. The upgrade is gorilla's; its
  outcome and the UUID drawn by \<^verbatim>\<open>uuid.New()\<close> are inputs. On success the result names
  the client whose \<^verbatim>\<open>wsReader\<close> goroutine is started.
\<close>

datatype upgrade = UpgradeFailed | Upgraded

definition call_err_hook :: "user_code \<Rightarrow> fref option \<Rightarrow> state \<Rightarrow> panic + state" where
  "call_err_hook U h s =
     (case h of
        None \<Rightarrow> Inr s
      | Some f \<Rightarrow>
          (case err_fn U f (fst s) of
             Inl p \<Rightarrow> Inl p
           | Inr w' \<Rightarrow> Inr (w', snd s @ [ErrCall f])))"

definition call_conn_hook :: "user_code \<Rightarrow> fref option \<Rightarrow> sref \<Rightarrow> state \<Rightarrow> panic + state" where
  "call_conn_hook U h k s =
     (case h of
        None \<Rightarrow> Inr s
      | Some f \<Rightarrow>
          (case conn_fn U f k (fst s) of
             Inl p \<Rightarrow> Inl p
           | Inr w' \<Rightarrow> Inr (w', snd s @ [ConnCall f k])))"

fun Handle :: "user_code \<Rightarrow> upgrade \<Rightarrow> string \<Rightarrow> state \<Rightarrow> panic + (cref option \<times> state)" where
  "Handle U UpgradeFailed uuid s =
     (case call_err_hook U (errHandler (fst s)) s of
        Inl p \<Rightarrow> Inl p
      | Inr s' \<Rightarrow> Inr (None, s'))"
| "Handle U Upgraded uuid (w, tr) =
     (let k = next_conn w;
          w0 = w\<lparr>conn_at := (conn_at w)(k := \<lparr>conn_closed = False, sent = []\<rparr>),
                 next_conn := Suc k\<rparr>
      in case call_conn_hook U (preConnectHandler w0) k (w0, tr) of
           Inl p \<Rightarrow> Inl p
         | Inr (w1, tr1) \<Rightarrow>
             (let c = next_client w1;
                  w2 = w1\<lparr>client_at := (client_at w1)(c := createClient k uuid),
                          next_client := Suc c,
                          Clients := Clients w1 @ [c]\<rparr>
              in case call_client_hook U (connectedHandler w2) c (w2, tr1) of
                   Inl p \<Rightarrow> Inl p
                 | Inr s3 \<Rightarrow> Inr (Some c, s3)))"

text \<open>
  The receive loop. What \<^verbatim>\<open>ReadMessage\<close> and \<^verbatim>\<open>json.Unmarshal\<close> yield is the input: a read
  error, bytes that do not decode, or a decoded map. The loop ends on a read error; when
  the input is used up it is still blocked in the next read.
\<close>

datatype read = ReadError | Undecodable | Decoded jmap

datatype reader = Stopped | Reading

fun wsReader :: "user_code \<Rightarrow> cref \<Rightarrow> read list \<Rightarrow> state \<Rightarrow> panic + (reader \<times> state)" where
  "wsReader U c [] s = Inr (Reading, s)"
| "wsReader U c (ReadError # rest) (w, tr) =
     (let w1 = w\<lparr>Clients := remove_first c (Clients w)\<rparr>;
          w2 = Close c w1
      in case call_client_hook U (disconnectedHandler w2) c (w2, tr) of
           Inl p \<Rightarrow> Inl p
         | Inr s' \<Rightarrow> Inr (Stopped, s'))"
| "wsReader U c (Undecodable # rest) s =
     (case call_err_hook U (errHandler (fst s)) s of
        Inl p \<Rightarrow> Inl p
      | Inr s' \<Rightarrow> wsReader U c rest s')"
| "wsReader U c (Decoded result # rest) s =
     (case handleClientData U c result s of
        Inl p \<Rightarrow> Inl p
      | Inr s' \<Rightarrow> wsReader U c rest s')"

section \<open>The client (class IgoClient)\<close>

text \<open>
  A JavaScript value that \<^verbatim>\<open>JSON.parse\<close> can produce is a \<^typ>\<open>json\<close>; \<open>None\<close> is
  \<^verbatim>\<open>undefined\<close>. An exception leaves the object as it was when it was thrown, so an abrupt
  completion carries the state.
\<close>

type_synonym jsval = "json option"

datatype js_error = SyntaxError | TypeError | UserError string

text \<open>A handler in \<^verbatim>\<open>_handlers\<close> is a function of the user or the \<^verbatim>\<open>onceHandler\<close> closure
  of \<^verbatim>\<open>once\<close>. Every call of \<^verbatim>\<open>once\<close> builds a new function object; \<^verbatim>\<open>indexOf\<close> compares
  function objects by identity, which the number stands for.\<close>

datatype handler =
    Handler fref
  | OnceHandler nat string handler

record igo_client =
  cl_handlers :: "string \<rightharpoonup> handler list"
  cl_reconnectTimeout :: nat
  cl_url :: string
  cl_socket :: "nat option"
  cl_id :: jsval
  cl_preConnectedHandler :: "fref option"
  cl_connectedHandler :: "fref option"
  cl_disconnectedHandler :: "fref option"
  cl_timers :: "nat list"
  cl_console :: "string list"
  cl_next_socket :: nat
  cl_next_closure :: nat

record client_code =
  handler_fn :: "fref \<Rightarrow> jsval \<Rightarrow> igo_client \<Rightarrow> (js_error \<times> igo_client) + igo_client"
  hook_fn :: "fref \<Rightarrow> igo_client \<Rightarrow> (js_error \<times> igo_client) + igo_client"

datatype client_call = HandlerCall fref jsval | HookCall fref

type_synonym client_state = "igo_client \<times> client_call list"

type_synonym completion = "(js_error \<times> client_state) + client_state"

text \<open>
  \<^verbatim>\<open>_handlers\<close> is an object literal, so a lookup under a name that \<^verbatim>\<open>Object.prototype\<close>
  defines finds the inherited member instead of \<^verbatim>\<open>undefined\<close>; it has no \<^verbatim>\<open>push\<close> and no
  \<^verbatim>\<open>indexOf\<close> and is not iterable, and every use of it throws a TypeError.
\<close>

definition inherited :: "string \<Rightarrow> bool" where
  "inherited k \<longleftrightarrow> k \<in> set [''constructor'', ''hasOwnProperty'', ''isPrototypeOf'',
     ''propertyIsEnumerable'', ''toLocaleString'', ''toString'', ''valueOf'', ''__proto__'',
     ''__defineGetter__'', ''__defineSetter__'', ''__lookupGetter__'', ''__lookupSetter__'']"

definition on :: "string \<Rightarrow> handler \<Rightarrow> igo_client \<Rightarrow> (js_error \<times> igo_client) + igo_client" where
  "on event h c =
     (if inherited event then Inl (TypeError, c)
      else Inr (c\<lparr>cl_handlers := (cl_handlers c)
                  (event \<mapsto> (case cl_handlers c event of None \<Rightarrow> [] | Some hs \<Rightarrow> hs) @ [h])\<rparr>))"

definition off :: "string \<Rightarrow> handler \<Rightarrow> igo_client \<Rightarrow> (js_error \<times> igo_client) + igo_client" where
  "off event h c =
     (if inherited event then Inl (TypeError, c)
      else case cl_handlers c event of
             None \<Rightarrow> Inr c
           | Some hs \<Rightarrow>
               (case index_of h hs of
                  None \<Rightarrow> Inr c
                | Some i \<Rightarrow> Inr (c\<lparr>cl_handlers := (cl_handlers c)(event \<mapsto> delete_at i hs)\<rparr>)))"

definition once :: "string \<Rightarrow> handler \<Rightarrow> igo_client \<Rightarrow> (js_error \<times> igo_client) + igo_client" where
  "once event h c =
     (let onceHandler = OnceHandler (cl_next_closure c) event h
      in on event onceHandler (c\<lparr>cl_next_closure := Suc (cl_next_closure c)\<rparr>))"

definition onPreConnected :: "fref option \<Rightarrow> igo_client \<Rightarrow> igo_client" where
  "onPreConnected h c = c\<lparr>cl_preConnectedHandler := h\<rparr>"

definition onConnected :: "fref option \<Rightarrow> igo_client \<Rightarrow> igo_client" where
  "onConnected h c = c\<lparr>cl_connectedHandler := h\<rparr>"

definition onDisconnected :: "fref option \<Rightarrow> igo_client \<Rightarrow> igo_client" where
  "onDisconnected h c = c\<lparr>cl_disconnectedHandler := h\<rparr>"

text \<open>The getter \<^verbatim>\<open>id\<close>.\<close>

definition get_id :: "igo_client \<Rightarrow> jsval" where
  "get_id c = cl_id c"

definition connect :: "igo_client \<Rightarrow> igo_client" where
  "connect c =
     c\<lparr>cl_id := Some (JStr ''''),
       cl_socket := Some (cl_next_socket c),
       cl_next_socket := Suc (cl_next_socket c)\<rparr>"

text \<open>The constructor, with the default of its second parameter.\<close>

definition IgoClient :: "string \<Rightarrow> nat option \<Rightarrow> igo_client" where
  "IgoClient url reconnectTimeout =
     connect \<lparr>cl_handlers = Map.empty,
              cl_reconnectTimeout = (case reconnectTimeout of None \<Rightarrow> 5000 | Some t \<Rightarrow> t),
              cl_url = url, cl_socket = None, cl_id = Some (JStr ''''),
              cl_preConnectedHandler = None, cl_connectedHandler = None,
              cl_disconnectedHandler = None,
              cl_timers = [], cl_console = [], cl_next_socket = 0, cl_next_closure = 0\<rparr>"

text \<open>\<^verbatim>\<open>if (handler !== null) handler()\<close> for the three hooks.\<close>

definition call_hook :: "client_code \<Rightarrow> fref option \<Rightarrow> client_state \<Rightarrow> completion" where
  "call_hook U h s =
     (case h of
        None \<Rightarrow> Inr s
      | Some f \<Rightarrow>
          (case hook_fn U f (fst s) of
             Inl (e, c') \<Rightarrow> Inl (e, (c', snd s @ [HookCall f]))
           | Inr c' \<Rightarrow> Inr (c', snd s @ [HookCall f])))"

definition onOpen :: "client_code \<Rightarrow> client_state \<Rightarrow> completion" where
  "onOpen U s = call_hook U (cl_preConnectedHandler (fst s)) s"

text \<open>\<^verbatim>\<open>setTimeout\<close> queues the call of \<^verbatim>\<open>connect\<close> with its delay; the timer's expiry is an
  event of its own, \<open>timer_fired\<close>.\<close>

definition onClose :: "client_code \<Rightarrow> client_state \<Rightarrow> completion" where
  "onClose U s =
     (case call_hook U (cl_disconnectedHandler (fst s)) s of
        Inl x \<Rightarrow> Inl x
      | Inr (c', tr') \<Rightarrow> Inr (c'\<lparr>cl_timers := cl_timers c' @ [cl_reconnectTimeout c']\<rparr>, tr'))"

definition timer_fired :: "client_state \<Rightarrow> client_state" where
  "timer_fired s =
     (case cl_timers (fst s) of
        [] \<Rightarrow> s
      | t # ts \<Rightarrow> (connect ((fst s)\<lparr>cl_timers := ts\<rparr>), snd s))"

text \<open>Calling a handler. The closure of \<^verbatim>\<open>once\<close> calls the wrapped handler and, when that
  returns, removes itself.\<close>

fun call_handler :: "client_code \<Rightarrow> handler \<Rightarrow> jsval \<Rightarrow> client_state \<Rightarrow> completion" where
  "call_handler U (Handler f) d (c, tr) =
     (case handler_fn U f d c of
        Inl (e, c') \<Rightarrow> Inl (e, (c', tr @ [HandlerCall f d]))
      | Inr c' \<Rightarrow> Inr (c', tr @ [HandlerCall f d]))"
| "call_handler U (OnceHandler tag event h) d s =
     (case call_handler U h d s of
        Inl x \<Rightarrow> Inl x
      | Inr (c', tr') \<Rightarrow>
          (case off event (OnceHandler tag event h) c' of
             Inl (e, c'') \<Rightarrow> Inl (e, (c'', tr'))
           | Inr c'' \<Rightarrow> Inr (c'', tr')))"

text \<open>
  \<^verbatim>\<open>for (const handler of this._handlers[eventName]) handler(eventData)\<close>. The array iterator
  reads the live array at its index until the index reaches the length; handlers may
  lengthen or shorten the array meanwhile, so the loop need not end: \<open>None\<close> is a loop
  that runs for ever.
\<close>

partial_function (option) dispatch_from ::
  "client_code \<Rightarrow> string \<Rightarrow> jsval \<Rightarrow> nat \<Rightarrow> client_state \<Rightarrow> completion option" where
  "dispatch_from U key d i s =
     (case cl_handlers (fst s) key of
        None \<Rightarrow> Some (Inr s)
      | Some hs \<Rightarrow>
          if i < length hs then
            (case call_handler U (hs ! i) d s of
               Inl x \<Rightarrow> Some (Inl x)
             | Inr s' \<Rightarrow> dispatch_from U key d (Suc i) s')
          else Some (Inr s))"

text \<open>Reading the members \<^verbatim>\<open>event\<close>, \<^verbatim>\<open>data\<close> and \<^verbatim>\<open>clientId\<close>: a TypeError on \<^verbatim>\<open>null\<close> and
  \<^verbatim>\<open>undefined\<close>, the member of an object, \<^verbatim>\<open>undefined\<close> on everything else (no primitive
  and no array has a member of one of these three names).\<close>

fun get_member :: "jsval \<Rightarrow> string \<Rightarrow> js_error + jsval" where
  "get_member None k = Inl TypeError"
| "get_member (Some JNull) k = Inl TypeError"
| "get_member (Some (JObj kvs)) k = Inr (map_of kvs k)"
| "get_member (Some v) k = Inr None"

text \<open>The string a value becomes when it is used as a property key.\<close>

fun digits :: "nat \<Rightarrow> string" where
  "digits n =
     (if n < 10 then [''0123456789'' ! n]
      else digits (n div 10) @ [''0123456789'' ! (n mod 10)])"

fun join_with :: "string \<Rightarrow> string list \<Rightarrow> string" where
  "join_with sep [] = []"
| "join_with sep [x] = x"
| "join_with sep (x # y # ys) = x @ sep @ join_with sep (y # ys)"

fun to_string :: "json \<Rightarrow> string" and element_string :: "json \<Rightarrow> string" where
  "to_string JNull = ''null''"
| "to_string (JBool b) = (if b then ''true'' else ''false'')"
| "to_string (JNum n) = (if n < 0 then ''-'' @ digits (nat (- n)) else digits (nat n))"
| "to_string (JStr s) = s"
| "to_string (JArr xs) = join_with '','' (map element_string xs)"
| "to_string (JObj kvs) = ''[object Object]''"
| "element_string v = (if v = JNull then [] else to_string v)"

definition to_key :: "jsval \<Rightarrow> string" where
  "to_key v = (case v of None \<Rightarrow> ''undefined'' | Some j \<Rightarrow> to_string j)"

text \<open>\<^verbatim>\<open>onMessage\<close>; the argument is what \<^verbatim>\<open>JSON.parse(message.data)\<close> yields, \<open>None\<close> when it
  throws.\<close>

definition onMessage :: "client_code \<Rightarrow> json option \<Rightarrow> client_state \<Rightarrow> completion option" where
  "onMessage U parsed s =
     (case parsed of
        None \<Rightarrow> Some (Inl (SyntaxError, s))
      | Some event \<Rightarrow>
     (case get_member (Some event) ''event'' of
        Inl e \<Rightarrow> Some (Inl (e, s))
      | Inr eventName \<Rightarrow>
     (case get_member (Some event) ''data'' of
        Inl e \<Rightarrow> Some (Inl (e, s))
      | Inr eventData \<Rightarrow>
          if eventName = Some (JStr ''#handshake'') then
            (if cl_id (fst s) \<noteq> Some (JStr '''')
             then Some (Inr ((fst s)\<lparr>cl_console := cl_console (fst s) @
                        [''Received handshake event but already connected'']\<rparr>, snd s))
             else
               (case get_member eventData ''clientId'' of
                  Inl e \<Rightarrow> Some (Inl (e, s))
                | Inr v \<Rightarrow>
                    Some (call_hook U (cl_connectedHandler (fst s))
                            ((fst s)\<lparr>cl_id := v\<rparr>, snd s))))
          else if inherited (to_key eventName) then Some (Inl (TypeError, s))
          else if cl_handlers (fst s) (to_key eventName) = None then Some (Inr s)
          else dispatch_from U (to_key eventName) eventData 0 s)))"

section \<open>User code used in the examples\<close>

text \<open>Functions that return at once: listeners return nil, nothing is changed.\<close>

definition quiet_code :: user_code where
  "quiet_code =
     \<lparr>listener_fn = (\<lambda>f c d w. Inr (JNull, w)),
      client_fn = (\<lambda>f c w. Inr w),
      conn_fn = (\<lambda>f k w. Inr w),
      err_fn = (\<lambda>f w. Inr w)\<rparr>"

text \<open>A server program whose connected hook registers a listener for \<^verbatim>\<open>ping\<close> on the new
  client; the listener returns the string \<^verbatim>\<open>pong\<close>.\<close>

definition ping_code :: user_code where
  "ping_code =
     \<lparr>listener_fn = (\<lambda>f c d w. Inr (JStr ''pong'', w)),
      client_fn = (\<lambda>f c w. Inr (On c ''ping'' (Fn 1) w)),
      conn_fn = (\<lambda>f k w. Inr w),
      err_fn = (\<lambda>f w. Inr w)\<rparr>"

definition quiet_client_code :: client_code where
  "quiet_client_code = \<lparr>handler_fn = (\<lambda>f d c. Inr c), hook_fn = (\<lambda>f c. Inr c)\<rparr>"

text \<open>A server with two connected peers, 0 and 1, each on its own connection, and one
  room \<^verbatim>\<open>lobby\<close> that peer 0 joined twice and peer 1 once, with an on-left callback.\<close>

definition two_peers :: world where
  "two_peers =
     (CreateIgoServer None)
       \<lparr>Clients := [0, 1],
        Rooms := [0],
        client_at := (\<lambda>c. createClient c ''peer''),
        room_at := (\<lambda>r. \<lparr>room_Id = ''lobby'', clients = [0, 1, 0],
                          joinedHandler = None, leftHandler = Some 7\<rparr>),
        next_client := 2, next_room := 1, next_conn := 2\<rparr>"

text \<open>The invariant of the room allocator: every room of the server was handed out by
  the counter.\<close>

definition rooms_allocated :: "world \<Rightarrow> bool" where
  "rooms_allocated w = list_all (\<lambda>r. r < next_room w) (Rooms w)"

section \<open>What a connection has been sent\<close>

text \<open>The keys of a frame, and the frames appended to a connection between two worlds.\<close>

fun frame_keys :: "json \<Rightarrow> string list" where
  "frame_keys (JObj kvs) = map fst kvs"
| "frame_keys v = []"

definition written_since :: "world \<Rightarrow> world \<Rightarrow> sref \<Rightarrow> json list" where
  "written_since w w' k = drop (length (sent (conn_at w k))) (sent (conn_at w' k))"

section \<open>More examples\<close>

text \<open>A listener that writes a frame \<^verbatim>\<open>fired\<close> each time it runs, and one that also
  dispatches the event \<^verbatim>\<open>tick\<close> again from within, to whatever is registered then.\<close>

definition firing_code :: user_code where
  "firing_code =
     \<lparr>listener_fn = (\<lambda>f c d w. Inr (JNull, snd (Emit c ''fired'' JNull w))),
      client_fn = (\<lambda>f c w. Inr w),
      conn_fn = (\<lambda>f k w. Inr w),
      err_fn = (\<lambda>f w. Inr w)\<rparr>"

definition retrigger_code :: user_code where
  "retrigger_code =
     \<lparr>listener_fn = (\<lambda>f c d w.
        (case handleClientData firing_code c [(''event'', JStr ''tick''), (''data'', JObj d)]
                (snd (Emit c ''fired'' JNull w), []) of
           Inl p \<Rightarrow> Inl p
         | Inr (w', tr) \<Rightarrow> Inr (JNull, w'))),
      client_fn = (\<lambda>f c w. Inr w),
      conn_fn = (\<lambda>f k w. Inr w),
      err_fn = (\<lambda>f w. Inr w)\<rparr>"

text \<open>A client that has completed the handshake with the id \<^verbatim>\<open>abc\<close>, and one that has
  called \<^verbatim>\<open>once("tick", h)\<close> before any handshake.\<close>

definition identified :: igo_client where
  "identified = (IgoClient ''ws://hub'' None)\<lparr>cl_id := Some (JStr ''abc'')\<rparr>"

definition ticking :: igo_client where
  "ticking =
     (IgoClient ''ws://hub'' None)
       \<lparr>cl_next_closure := 1,
        cl_handlers := [''tick'' \<mapsto> [OnceHandler 0 ''tick'' (Handler 1)]]\<rparr>"

text \<open>A client program whose handlers all throw.\<close>

definition throwing_client_code :: client_code where
  "throwing_client_code =
     \<lparr>handler_fn = (\<lambda>f d c. Inl (UserError ''boom'', c)), hook_fn = (\<lambda>f c. Inr c)\<rparr>"

text \<open>A client program whose handlers append \<^verbatim>\<open>fired\<close> to the console, and one whose
  handlers do so and then have the event \<^verbatim>\<open>tick\<close> dispatched again, from within, to
  whatever is registered at that moment.\<close>

definition logging_client_code :: client_code where
  "logging_client_code =
     \<lparr>handler_fn = (\<lambda>f d c. Inr (c\<lparr>cl_console := cl_console c @ [''fired'']\<rparr>)),
      hook_fn = (\<lambda>f c. Inr c)\<rparr>"

definition retrigger_client_code :: client_code where
  "retrigger_client_code =
     \<lparr>handler_fn = (\<lambda>f d c.
        (case onMessage logging_client_code
                (Some (JObj [(''event'', JStr ''tick''), (''data'', JNull)]))
                (c\<lparr>cl_console := cl_console c @ [''fired'']\<rparr>, []) of
           None \<Rightarrow> Inl (UserError ''no return'', c)
         | Some (Inl (e, (c', tr))) \<Rightarrow> Inl (e, c')
         | Some (Inr (c', tr)) \<Rightarrow> Inr c')),
      hook_fn = (\<lambda>f c. Inr c)\<rparr>"

section \<open>Lemmas about the helpers\<close>

lemma assert_string_Inr: "assert_string k v = Inr s \<longleftrightarrow> v = Some (JStr s)"
  by (cases "(k, v)" rule: assert_string.cases) auto

lemma assert_map_Inr: "assert_map k v = Inr m \<longleftrightarrow> v = Some (JObj m)"
  by (cases "(k, v)" rule: assert_map.cases) auto

lemma assert_string_Inl:
  "assert_string k v = Inl p \<longleftrightarrow> p = InterfaceConversion k \<and> (\<forall>s. v \<noteq> Some (JStr s))"
  by (cases "(k, v)" rule: assert_string.cases) auto

lemma assert_map_Inl:
  "assert_map k v = Inl p \<longleftrightarrow> p = InterfaceConversion k \<and> (\<forall>m. v \<noteq> Some (JObj m))"
  by (cases "(k, v)" rule: assert_map.cases) auto

lemma Emit_closed:
  "conn_closed (conn_at w (socket (client_at w c))) \<Longrightarrow> Emit c n d w = (False, w)"
  by (simp add: Emit_def WriteJSON_def)


text \<open>The dispatch of a frame whose three fields have the types the assertions ask for.\<close>

lemma handleClientData_wellformed:
  assumes "map_of data ''event'' = Some (JStr e)"
    and "map_of data ''data'' = Some (JObj d)"
    and "map_of data ''ackId'' = a"
    and "a = None \<or> a = Some JNull \<or> (\<exists>t. a = Some (JStr t))"
  shows "handleClientData U c data s =
     (case Events (client_at (fst s) c) e of
        None \<Rightarrow> Inr s
      | Some l \<Rightarrow>
         (case call_listener U l c d s of
            Inl p \<Rightarrow> Inl p
          | Inr (result, (w', tr')) \<Rightarrow>
             (case a of
                Some (JStr t) \<Rightarrow>
                  if t \<noteq> [] then Inr (snd (Emit c (e @ ''@ack:'' @ t) (JObj [(''result'', result)]) w'), tr')
                  else Inr (w', tr')
              | _ \<Rightarrow> Inr (w', tr'))))"
  using assms
  by (auto simp: handleClientData_def split: option.splits sum.splits prod.splits)

lemma index_of_None: "index_of c xs = None \<longleftrightarrow> c \<notin> set xs"
  by (induction xs) auto

lemma index_of_first: "c \<notin> set xs \<Longrightarrow> index_of c (xs @ c # ys) = Some (length xs)"
  by (induction xs) auto

lemma remove_first_absent: "c \<notin> set xs \<Longrightarrow> remove_first c xs = xs"
  by (simp add: remove_first_def index_of_None [THEN iffD2])

lemma remove_first_present: "c \<notin> set xs \<Longrightarrow> remove_first c (xs @ c # ys) = xs @ ys"
  by (simp add: remove_first_def index_of_first delete_at_def)

lemma remove_first_remove1: "remove_first c xs = remove1 c xs"
proof (cases "c \<in> set xs")
  case True
  then obtain ys zs where "xs = ys @ c # zs" "c \<notin> set ys"
    by (auto dest: split_list_first)
  then show ?thesis by (simp add: remove_first_present remove1_append)
next
  case False
  then show ?thesis by (simp add: remove_first_absent remove1_idem)
qed

lemma set_clients_same: "set_clients r (clients (room_at w r)) w = w"
  by (simp add: set_clients_def)

lemma Emit_client_at: "client_at (snd (Emit c n d w)) = client_at w"
  by (simp add: Emit_def WriteJSON_def)

lemma Emit_room_at: "room_at (snd (Emit c n d w)) = room_at w"
  by (simp add: Emit_def WriteJSON_def)

lemma Emit_closed_conn:
  "conn_closed (conn_at w k) \<Longrightarrow> conn_at (snd (Emit c n d w)) k = conn_at w k"
  by (auto simp: Emit_def WriteJSON_def)

lemma emit_loop_closed_conn:
  "conn_closed (conn_at w k) \<Longrightarrow> conn_at (emit_loop ex cs n d w) k = conn_at w k"
  by (induction cs arbitrary: w) (simp_all add: Emit_closed_conn)

lemma emit_loop_room_at: "room_at (emit_loop ex cs n d w) = room_at w"
  by (induction cs arbitrary: w) (simp_all add: Emit_room_at)

lemma first_named_append:
  "first_named h name (xs @ ys) =
     (case first_named h name xs of Some r \<Rightarrow> Some r | None \<Rightarrow> first_named h name ys)"
  by (induction xs) auto

lemma first_named_cong:
  "(\<And>r. r \<in> set xs \<Longrightarrow> room_Id (h r) = room_Id (h' r)) \<Longrightarrow>
   first_named h name xs = first_named h' name xs"
  by (induction xs) auto

lemma first_named_None:
  "first_named h name xs = None \<longleftrightarrow> (\<forall>r \<in> set xs. room_Id (h r) \<noteq> name)"
  by (induction xs) auto

section \<open>The claims\<close>

text \<open>
  C8. A decoded frame without a string \<^verbatim>\<open>event\<close> or without a key-value \<^verbatim>\<open>data\<close> makes
  \<^verbatim>\<open>handleClientData\<close> panic in the type assertion on that field, and the receive loop,
  which has no recover, ends with the same panic: the frame is not reported to the error
  hook and dropped, and the rest of the input is never read.
\<close>

theorem malformed_frame_panics:
  assumes "(\<forall>e. map_of data ''event'' \<noteq> Some (JStr e)) \<or> (\<forall>d. map_of data ''data'' \<noteq> Some (JObj d))"
  shows "handleClientData U c data s =
           Inl (InterfaceConversion
                 (if \<forall>e. map_of data ''event'' \<noteq> Some (JStr e) then ''event'' else ''data''))
       \<and> wsReader U c (Decoded data # rest) s =
           Inl (InterfaceConversion
                 (if \<forall>e. map_of data ''event'' \<noteq> Some (JStr e) then ''event'' else ''data''))"
proof -
  have h: "handleClientData U c data s =
           Inl (InterfaceConversion
                 (if \<forall>e. map_of data ''event'' \<noteq> Some (JStr e) then ''event'' else ''data''))"
  proof (cases "\<forall>e. map_of data ''event'' \<noteq> Some (JStr e)")
    case True
    then have "assert_string ''event'' (map_of data ''event'') = Inl (InterfaceConversion ''event'')"
      by (simp add: assert_string_Inl)
    with True show ?thesis by (simp add: handleClientData_def)
  next
    case False
    then obtain e where e: "assert_string ''event'' (map_of data ''event'') = Inr e"
      by (auto simp: assert_string_Inr)
    from False assms have "\<forall>d. map_of data ''data'' \<noteq> Some (JObj d)" by blast
    then have "assert_map ''data'' (map_of data ''data'') = Inl (InterfaceConversion ''data'')"
      by (simp add: assert_map_Inl)
    with False e show ?thesis by (simp add: handleClientData_def)
  qed
  then show ?thesis by simp
qed

theorem malformed_frame_panics_witness:
  "handleClientData quiet_code 0 [(''event'', JNum 7), (''data'', JObj [])] (CreateIgoServer None, [])
     = Inl (InterfaceConversion ''event'')
   \<and> wsReader quiet_code 0 [Decoded [(''event'', JNum 7), (''data'', JObj [])], ReadError]
        (CreateIgoServer None, [])
     = Inl (InterfaceConversion ''event'')"
  using malformed_frame_panics [of "[(''event'', JNum 7), (''data'', JObj [])]" quiet_code 0
          "(CreateIgoServer None, [])" "[ReadError]"]
  by simp

text \<open>
  C6. After \<^verbatim>\<open>p.On(e, h)\<close> the entry of \<^verbatim>\<open>e\<close> is \<^verbatim>\<open>h\<close>. A Peer whose entry for \<^verbatim>\<open>e\<close> is \<^verbatim>\<open>h\<close> and
  that receives the frame \<^verbatim>\<open>{event: e, data: d}\<close> makes exactly one call into user code,
  \<^verbatim>\<open>h(p, d)\<close>, and ends in the world that call leaves (or panics as the call does). With no
  entry for \<^verbatim>\<open>e\<close> the frame is dropped: no error, no call, nothing changes.
\<close>

theorem dispatch_invokes_bound_listener_once:
  "Events (client_at (On p e (Fn h) w0) p) e = Some (Fn h)
   \<and> (Events (client_at w p) e = Some (Fn h) \<longrightarrow>
        handleClientData U p [(''event'', JStr e), (''data'', JObj d)] (w, tr) =
          (case listener_fn U h p d w of
             Inl x \<Rightarrow> Inl x
           | Inr (v, w') \<Rightarrow> Inr (w', tr @ [ListenerCall h p d])))
   \<and> (Events (client_at w p) e = None \<longrightarrow>
        handleClientData U p [(''event'', JStr e), (''data'', JObj d)] (w, tr) = Inr (w, tr))"
  by (simp add: On_def set_Events_def
        handleClientData_wellformed [where e = e and d = d and a = None]
        split: sum.splits)

theorem dispatch_invokes_bound_listener_once_witness:
  "handleClientData ping_code 0 [(''event'', JStr ''ping''), (''data'', JObj [(''n'', JNum 1)])]
     (On 0 ''ping'' (Fn 1) (CreateIgoServer None), [])
     = Inr (On 0 ''ping'' (Fn 1) (CreateIgoServer None), [ListenerCall 1 0 [(''n'', JNum 1)]])
   \<and> handleClientData ping_code 0 [(''event'', JStr ''quit''), (''data'', JObj [])]
     (On 0 ''ping'' (Fn 1) (CreateIgoServer None), [])
     = Inr (On 0 ''ping'' (Fn 1) (CreateIgoServer None), [])"
proof -
  let ?w = "On 0 ''ping'' (Fn 1) (CreateIgoServer None)"
  have bound: "Events (client_at ?w 0) ''ping'' = Some (Fn 1)"
    by (simp add: On_def set_Events_def)
  have unbound: "Events (client_at ?w 0) ''quit'' = None"
    by (simp add: On_def set_Events_def CreateIgoServer_def createClient_def)
  have returns: "listener_fn ping_code 1 0 [(''n'', JNum 1)] ?w = Inr (JStr ''pong'', ?w)"
    by (simp add: ping_code_def)
  from bound returns
    dispatch_invokes_bound_listener_once [of 0 "''ping''" 1 "CreateIgoServer None" ?w
      ping_code "[(''n'', JNum 1)]" "[]"]
  have first: "handleClientData ping_code 0
      [(''event'', JStr ''ping''), (''data'', JObj [(''n'', JNum 1)])] (?w, [])
      = Inr (?w, [ListenerCall 1 0 [(''n'', JNum 1)]])"
    by simp
  from unbound
    dispatch_invokes_bound_listener_once [of 0 "''quit''" 1 "CreateIgoServer None" ?w
      ping_code "[]" "[]"]
  have second: "handleClientData ping_code 0
      [(''event'', JStr ''quit''), (''data'', JObj [])] (?w, []) = Inr (?w, [])"
    by simp
  from first second show ?thesis by simp
qed



text \<open>
  C3 (as amended). \<^verbatim>\<open>Leave\<close> removes the first entry of the room's membership that is the
  Peer and no other; when the Peer is not a member the membership, and the whole world, is
  unchanged and no error is raised. In both cases it then invokes the room's on-left
  callback if one is set: the callback does not depend on the Peer having been a member.
\<close>

theorem leave_removes_first_then_calls_back:
  "(c \<notin> set (clients (room_at w r)) \<longrightarrow>
      Leave U c r (w, tr) = call_client_hook U (leftHandler (room_at w r)) c (w, tr))
   \<and> (clients (room_at w r) = xs @ c # ys \<and> c \<notin> set xs \<longrightarrow>
      Leave U c r (w, tr) =
        call_client_hook U (leftHandler (room_at w r)) c (set_clients r (xs @ ys) w, tr))
   \<and> call_client_hook U None c (w', tr) = Inr (w', tr)
   \<and> call_client_hook U (Some f) c (w', tr) =
        (case client_fn U f c w' of
           Inl p \<Rightarrow> Inl p
         | Inr w'' \<Rightarrow> Inr (w'', tr @ [ClientCall f c]))"
  by (auto simp: Leave_def Let_def remove_first_absent remove_first_present set_clients_same
                 set_clients_def call_client_hook_def split: sum.splits)

theorem leave_removes_first_then_calls_back_witness:
  "Leave quiet_code 0 0 (two_peers, []) = Inr (set_clients 0 [1, 0] two_peers, [ClientCall 7 0])
   \<and> Leave quiet_code 5 0 (two_peers, []) = Inr (two_peers, [ClientCall 7 5])"
proof -
  have members: "clients (room_at two_peers 0) = [] @ 0 # [1, 0]" "(0::nat) \<notin> set []"
    "5 \<notin> set (clients (room_at two_peers 0))"
    by (simp_all add: two_peers_def)
  have cb: "leftHandler (room_at two_peers 0) = Some 7"
    by (simp add: two_peers_def)
  have q: "client_fn quiet_code 7 0 (set_clients 0 [1, 0] two_peers) = Inr (set_clients 0 [1, 0] two_peers)"
    "client_fn quiet_code 7 5 two_peers = Inr two_peers"
    by (simp_all add: quiet_code_def)
  from members cb q
    leave_removes_first_then_calls_back [of 0 two_peers 0 quiet_code "[]" "[]" "[1, 0]"
      "set_clients 0 [1, 0] two_peers" 7]
  have member: "Leave quiet_code 0 0 (two_peers, []) = Inr (set_clients 0 [1, 0] two_peers, [ClientCall 7 0])"
    by simp
  from members cb q
    leave_removes_first_then_calls_back [of 5 two_peers 0 quiet_code "[]" "[]" "[]" two_peers 7]
  have stranger: "Leave quiet_code 5 0 (two_peers, []) = Inr (two_peers, [ClientCall 7 5])"
    by simp
  from member stranger show ?thesis by simp
qed

theorem leave_nonmember_counterexample:
  "5 \<notin> set (clients (room_at two_peers 0))
   \<and> leftHandler (room_at two_peers 0) = Some 7
   \<and> Leave quiet_code 5 0 (two_peers, []) = Inr (two_peers, [ClientCall 7 5])"
proof -
  have stranger: "5 \<notin> set (clients (room_at two_peers 0))"
    and cb: "leftHandler (room_at two_peers 0) = Some 7"
    by (simp_all add: two_peers_def)
  from stranger have "remove_first 5 (clients (room_at two_peers 0)) = clients (room_at two_peers 0)"
    by (rule remove_first_absent)
  then have "Leave quiet_code 5 0 (two_peers, []) = Inr (two_peers, [ClientCall 7 5])"
    by (simp add: Leave_def set_clients_same call_client_hook_def cb quiet_code_def)
  with stranger cb show ?thesis by simp
qed

text \<open>
  C2 (as amended). On a read error the receive loop removes the Peer's first entry from
  the Hub's live set (so a Peer listed once is no longer listed), closes its connection,
  calls the disconnected hook if one is set, and stops. It does not touch any Room: every
  Room's membership is what it was, and the Peer stays a member of the Rooms it had
  joined. Right after this cleanup a Hub or Room broadcast adds nothing to what was sent
  on the Peer's connection, because the write on the closed connection fails.
\<close>

theorem read_failure_cleanup:
  "wsReader U c (ReadError # rest) (w, tr) =
     (case call_client_hook U (disconnectedHandler w) c
             (Close c (w\<lparr>Clients := remove1 c (Clients w)\<rparr>), tr) of
        Inl p \<Rightarrow> Inl p
      | Inr s' \<Rightarrow> Inr (Stopped, s'))
   \<and> room_at (Close c (w\<lparr>Clients := remove1 c (Clients w)\<rparr>)) = room_at w
   \<and> (distinct (Clients w) \<longrightarrow>
        c \<notin> set (Clients (Close c (w\<lparr>Clients := remove1 c (Clients w)\<rparr>))))
   \<and> conn_at (Server_Emit n d (Close c (w\<lparr>Clients := remove1 c (Clients w)\<rparr>)))
         (socket (client_at w c))
       = (conn_at w (socket (client_at w c)))\<lparr>conn_closed := True\<rparr>
   \<and> conn_at (Room_Emit r n d (Close c (w\<lparr>Clients := remove1 c (Clients w)\<rparr>)))
         (socket (client_at w c))
       = (conn_at w (socket (client_at w c)))\<lparr>conn_closed := True\<rparr>"
proof -
  let ?w2 = "Close c (w\<lparr>Clients := remove1 c (Clients w)\<rparr>)"
  let ?k = "socket (client_at w c)"
  have closed: "conn_closed (conn_at ?w2 ?k)"
    by (simp add: Close_def Let_def)
  have conn: "conn_at ?w2 ?k = (conn_at w ?k)\<lparr>conn_closed := True\<rparr>"
    by (simp add: Close_def Let_def)
  have "wsReader U c (ReadError # rest) (w, tr) =
     (case call_client_hook U (disconnectedHandler w) c (?w2, tr) of
        Inl p \<Rightarrow> Inl p
      | Inr s' \<Rightarrow> Inr (Stopped, s'))"
    by (simp add: remove_first_remove1 Close_def Let_def)
  moreover have "room_at ?w2 = room_at w"
    by (simp add: Close_def Let_def)
  moreover have "distinct (Clients w) \<longrightarrow> c \<notin> set (Clients ?w2)"
    by (simp add: Close_def Let_def)
  moreover have "conn_at (Server_Emit n d ?w2) ?k = (conn_at w ?k)\<lparr>conn_closed := True\<rparr>"
    unfolding Server_Emit_def using emit_loop_closed_conn [OF closed] conn by simp
  moreover have "conn_at (Room_Emit r n d ?w2) ?k = (conn_at w ?k)\<lparr>conn_closed := True\<rparr>"
    unfolding Room_Emit_def using emit_loop_closed_conn [OF closed] conn by simp
  ultimately show ?thesis by blast
qed

theorem read_failure_cleanup_witness:
  "wsReader quiet_code 0 [ReadError] (two_peers, [])
     = Inr (Stopped, (Close 0 (two_peers\<lparr>Clients := [1]\<rparr>), []))
   \<and> clients (room_at (Close 0 (two_peers\<lparr>Clients := [1]\<rparr>)) 0) = [0, 1, 0]
   \<and> 0 \<notin> set (Clients (Close 0 (two_peers\<lparr>Clients := [1]\<rparr>)))
   \<and> sent (conn_at (Room_Emit 0 ''ping'' JNull (Close 0 (two_peers\<lparr>Clients := [1]\<rparr>))) 0) = []"
proof -
  have live: "Clients two_peers = [0, 1]" "remove1 0 (Clients two_peers) = [1]"
    "distinct (Clients two_peers)"
    by (simp_all add: two_peers_def)
  have hook: "disconnectedHandler two_peers = None"
    by (simp add: two_peers_def CreateIgoServer_def)
  have room: "clients (room_at two_peers 0) = [0, 1, 0]"
    by (simp add: two_peers_def)
  have sock: "socket (client_at two_peers 0) = 0" "sent (conn_at two_peers 0) = []"
    by (simp_all add: two_peers_def createClient_def CreateIgoServer_def)
  from read_failure_cleanup [of quiet_code 0 "[]" two_peers "[]" "''ping''" JNull 0] live hook room sock
  show ?thesis by (simp add: call_client_hook_def)
qed

theorem read_failure_keeps_membership_counterexample:
  "wsReader quiet_code 0 [ReadError] (two_peers, [])
     = Inr (Stopped, (Close 0 (two_peers\<lparr>Clients := [1]\<rparr>), []))
   \<and> 0 \<in> set (clients (room_at (Close 0 (two_peers\<lparr>Clients := [1]\<rparr>)) 0))"
proof -
  have "remove_first 0 (Clients two_peers) = [1]"
    by (simp add: remove_first_remove1 two_peers_def)
  moreover have "disconnectedHandler (Close 0 (two_peers\<lparr>Clients := [1]\<rparr>)) = None"
    by (simp add: Close_def Let_def two_peers_def CreateIgoServer_def)
  ultimately have "wsReader quiet_code 0 [ReadError] (two_peers, [])
     = Inr (Stopped, (Close 0 (two_peers\<lparr>Clients := [1]\<rparr>), []))"
    by (simp add: call_client_hook_def)
  moreover have "0 \<in> set (clients (room_at (Close 0 (two_peers\<lparr>Clients := [1]\<rparr>)) 0))"
    by (simp add: Close_def Let_def two_peers_def)
  ultimately show ?thesis by simp
qed

text \<open>
  C9. \<^verbatim>\<open>CreateRoom\<close> checks nothing: two calls with one name append two distinct Room
  objects of that name to the Hub, both empty, and a change of the membership of one
  leaves the other as it is. \<^verbatim>\<open>GetRoom\<close> of the name then returns the earliest Room of
  that name: the first of the two when the Hub had none of that name before. \<^verbatim>\<open>GetRoom\<close>
  returns nil exactly when no Room of the Hub has the name.
\<close>

theorem create_room_twice:
  assumes "rooms_allocated w"
    and "CreateRoom name w = (r1, w1)"
    and "CreateRoom name w1 = (r2, w2)"
  shows "r1 \<noteq> r2
     \<and> Rooms w2 = Rooms w @ [r1, r2]
     \<and> room_at w2 r1 = \<lparr>room_Id = name, clients = [], joinedHandler = None, leftHandler = None\<rparr>
     \<and> room_at w2 r2 = \<lparr>room_Id = name, clients = [], joinedHandler = None, leftHandler = None\<rparr>
     \<and> room_at (set_clients r1 cs w2) r2 = room_at w2 r2
     \<and> room_at (set_clients r2 cs w2) r1 = room_at w2 r1
     \<and> GetRoom name w2 = (case GetRoom name w of Some r0 \<Rightarrow> Some r0 | None \<Rightarrow> Some r1)
     \<and> (GetRoom other w2 = None \<longleftrightarrow> (\<forall>r \<in> set (Rooms w2). room_Id (room_at w2 r) \<noteq> other))"
proof -
  let ?fresh = "\<lparr>room_Id = name, clients = [], joinedHandler = None, leftHandler = None\<rparr>"
  from assms(2) have r1: "r1 = next_room w"
    and w1: "w1 = w\<lparr>room_at := (room_at w)(r1 := ?fresh),
                    Rooms := Rooms w @ [r1], next_room := Suc r1\<rparr>"
    by (auto simp: CreateRoom_def Let_def)
  from assms(3) w1 have r2: "r2 = Suc r1"
    and w2: "w2 = w1\<lparr>room_at := (room_at w1)(r2 := ?fresh),
                     Rooms := Rooms w1 @ [r2], next_room := Suc r2\<rparr>"
    by (auto simp: CreateRoom_def Let_def)
  have old: "\<And>r. r \<in> set (Rooms w) \<Longrightarrow> room_at w2 r = room_at w r"
    using assms(1) by (auto simp: rooms_allocated_def list_all_iff r1 r2 w1 w2)
  have "first_named (room_at w2) name (Rooms w) = first_named (room_at w) name (Rooms w)"
    by (rule first_named_cong) (simp add: old)
  then have get: "GetRoom name w2 = (case GetRoom name w of Some r0 \<Rightarrow> Some r0 | None \<Rightarrow> Some r1)"
    by (simp add: GetRoom_def w2 w1 r2 first_named_append split: option.splits)
  show ?thesis
    using get by (simp add: w1 w2 r2 set_clients_def GetRoom_def first_named_None)
qed

theorem create_room_twice_witness:
  "CreateRoom ''lobby'' (snd (CreateRoom ''lobby'' (CreateIgoServer None)))
     = (1, snd (CreateRoom ''lobby'' (snd (CreateRoom ''lobby'' (CreateIgoServer None)))))
   \<and> Rooms (snd (CreateRoom ''lobby'' (snd (CreateRoom ''lobby'' (CreateIgoServer None))))) = [0, 1]
   \<and> GetRoom ''lobby'' (snd (CreateRoom ''lobby'' (snd (CreateRoom ''lobby'' (CreateIgoServer None)))))
       = Some 0
   \<and> GetRoom ''attic'' (snd (CreateRoom ''lobby'' (snd (CreateRoom ''lobby'' (CreateIgoServer None)))))
       = None"
proof -
  let ?w = "CreateIgoServer None"
  let ?w1 = "snd (CreateRoom ''lobby'' ?w)"
  let ?w2 = "snd (CreateRoom ''lobby'' ?w1)"
  have inv: "rooms_allocated ?w"
    by (simp add: rooms_allocated_def CreateIgoServer_def)
  have first: "CreateRoom ''lobby'' ?w = (0, ?w1)"
    by (simp add: CreateRoom_def CreateIgoServer_def)
  have second: "CreateRoom ''lobby'' ?w1 = (1, ?w2)"
    by (simp add: CreateRoom_def CreateIgoServer_def)
  have none: "GetRoom ''lobby'' ?w = None" "Rooms ?w = []"
    by (simp_all add: GetRoom_def CreateIgoServer_def)
  note T = create_room_twice [OF inv first second, of "[]" "''attic''"]
  from T none have "Rooms ?w2 = [0, 1]" "GetRoom ''lobby'' ?w2 = Some 0"
    "room_Id (room_at ?w2 0) = ''lobby''" "room_Id (room_at ?w2 1) = ''lobby''"
    by simp_all
  moreover from this T have "GetRoom ''attic'' ?w2 = None"
    by simp
  ultimately show ?thesis using second by simp
qed

lemma written_sinceI:
  "sent (conn_at w' k) = sent (conn_at w k) @ fs \<Longrightarrow> written_since w w' k = fs"
  by (simp add: written_since_def)

lemma Emit_appends:
  "\<exists>fs. sent (conn_at (snd (Emit c n d w)) k) = sent (conn_at w k) @ fs
        \<and> list_all (\<lambda>f. frame_keys f = [''event'', ''data'']) fs"
  by (auto simp: Emit_def WriteJSON_def frame_def)

lemma emit_loop_appends:
  "\<exists>fs. sent (conn_at (emit_loop ex cs n d w) k) = sent (conn_at w k) @ fs
        \<and> list_all (\<lambda>f. frame_keys f = [''event'', ''data'']) fs"
proof (induction cs arbitrary: w)
  case Nil
  then show ?case by simp
next
  case (Cons c cs)
  show ?case
  proof (cases "Some c \<noteq> ex")
    case True
    obtain fs where fs: "sent (conn_at (snd (Emit c n d w)) k) = sent (conn_at w k) @ fs"
      "list_all (\<lambda>f. frame_keys f = [''event'', ''data'']) fs"
      using Emit_appends by blast
    obtain gs where gs: "sent (conn_at (emit_loop ex cs n d (snd (Emit c n d w))) k)
         = sent (conn_at (snd (Emit c n d w)) k) @ gs"
      "list_all (\<lambda>f. frame_keys f = [''event'', ''data'']) gs"
      using Cons.IH by blast
    from True fs gs have "sent (conn_at (emit_loop ex (c # cs) n d w) k) = sent (conn_at w k) @ (fs @ gs)
        \<and> list_all (\<lambda>f. frame_keys f = [''event'', ''data'']) (fs @ gs)"
      by simp
    then show ?thesis by blast
  next
    case False
    with Cons.IH [of w] show ?thesis by simp
  qed
qed

text \<open>
  C10. Every frame that \<^verbatim>\<open>Emit\<close> appends to a connection, alone or in a Hub or Room
  broadcast, and the frame that \<^verbatim>\<open>handleClientData\<close> appends after the listener has
  returned (the acknowledgement), is an object whose keys are exactly \<^verbatim>\<open>event\<close> and
  \<^verbatim>\<open>data\<close>: none carries an \<^verbatim>\<open>ackId\<close>.
\<close>

theorem emitted_frames_have_event_and_data_only:
  "sent (conn_at (snd (Emit c n d w)) k)
      = sent (conn_at w k) @ written_since w (snd (Emit c n d w)) k
   \<and> list_all (\<lambda>f. frame_keys f = [''event'', ''data'']) (written_since w (snd (Emit c n d w)) k)
   \<and> sent (conn_at (emit_loop ex cs n d w) k)
      = sent (conn_at w k) @ written_since w (emit_loop ex cs n d w) k
   \<and> list_all (\<lambda>f. frame_keys f = [''event'', ''data'']) (written_since w (emit_loop ex cs n d w) k)
   \<and> (Events (client_at w c) e = Some l
        \<and> call_listener U l c ed (w, tr) = Inr (v, (w', tr'))
        \<and> handleClientData U c [(''event'', JStr e), (''data'', JObj ed), (''ackId'', JStr a)] (w, tr)
             = Inr (w'', tr'') \<longrightarrow>
        tr'' = tr'
        \<and> sent (conn_at w'' k) = sent (conn_at w' k) @ written_since w' w'' k
        \<and> list_all (\<lambda>f. frame_keys f = [''event'', ''data'']) (written_since w' w'' k))"
proof -
  obtain fs where fs: "sent (conn_at (snd (Emit c n d w)) k) = sent (conn_at w k) @ fs"
    "list_all (\<lambda>f. frame_keys f = [''event'', ''data'']) fs"
    using Emit_appends by blast
  obtain gs where gs: "sent (conn_at (emit_loop ex cs n d w) k) = sent (conn_at w k) @ gs"
    "list_all (\<lambda>f. frame_keys f = [''event'', ''data'']) gs"
    using emit_loop_appends by blast
  have ack: "tr'' = tr'
          \<and> sent (conn_at w'' k) = sent (conn_at w' k) @ written_since w' w'' k
          \<and> list_all (\<lambda>f. frame_keys f = [''event'', ''data'']) (written_since w' w'' k)"
    if bound: "Events (client_at w c) e = Some l"
      and ret: "call_listener U l c ed (w, tr) = Inr (v, (w', tr'))"
      and res: "handleClientData U c [(''event'', JStr e), (''data'', JObj ed), (''ackId'', JStr a)] (w, tr)
             = Inr (w'', tr'')"
  proof (cases "a = []")
    case True
    with bound ret res have "w'' = w'" "tr'' = tr'"
      by (simp_all add: handleClientData_wellformed [where e = e and d = ed and a = "Some (JStr a)"])
    then show ?thesis by (simp add: written_since_def)
  next
    case False
    let ?v = "snd (Emit c (e @ ''@ack:'' @ a) (JObj [(''result'', v)]) w')"
    from False bound ret res have eq: "w'' = ?v" "tr'' = tr'"
      by (simp_all add: handleClientData_wellformed [where e = e and d = ed and a = "Some (JStr a)"])
    obtain hs where "sent (conn_at ?v k) = sent (conn_at w' k) @ hs"
      "list_all (\<lambda>f. frame_keys f = [''event'', ''data'']) hs"
      using Emit_appends by blast
    with eq show ?thesis by (simp add: written_sinceI)
  qed
  from fs have one: "sent (conn_at (snd (Emit c n d w)) k)
      = sent (conn_at w k) @ written_since w (snd (Emit c n d w)) k
   \<and> list_all (\<lambda>f. frame_keys f = [''event'', ''data'']) (written_since w (snd (Emit c n d w)) k)"
    by (simp add: written_sinceI)
  from gs have many: "sent (conn_at (emit_loop ex cs n d w) k)
      = sent (conn_at w k) @ written_since w (emit_loop ex cs n d w) k
   \<and> list_all (\<lambda>f. frame_keys f = [''event'', ''data'']) (written_since w (emit_loop ex cs n d w) k)"
    by (simp add: written_sinceI)
  from one many ack show ?thesis by blast
qed

theorem emitted_frames_have_event_and_data_only_witness:
  "written_since (On 0 ''x'' (Fn 1) two_peers)
     (snd (Emit 0 ''hello'' (JObj [(''ackId'', JStr ''1'')]) (On 0 ''x'' (Fn 1) two_peers))) 0
     = [JObj [(''event'', JStr ''hello''), (''data'', JObj [(''ackId'', JStr ''1'')])]]
   \<and> list_all (\<lambda>f. frame_keys f = [''event'', ''data''])
       (written_since (On 0 ''x'' (Fn 1) two_peers)
         (snd (Emit 0 ''hello'' (JObj [(''ackId'', JStr ''1'')]) (On 0 ''x'' (Fn 1) two_peers))) 0)
   \<and> handleClientData ping_code 0
        [(''event'', JStr ''x''), (''data'', JObj []), (''ackId'', JStr ''abc'')]
        (On 0 ''x'' (Fn 1) two_peers, [])
      = Inr (snd (Emit 0 ''x@ack:abc'' (JObj [(''result'', JStr ''pong'')]) (On 0 ''x'' (Fn 1) two_peers)),
             [ListenerCall 1 0 []])
   \<and> list_all (\<lambda>f. frame_keys f = [''event'', ''data''])
       (written_since (On 0 ''x'' (Fn 1) two_peers)
          (snd (Emit 0 ''x@ack:abc'' (JObj [(''result'', JStr ''pong'')]) (On 0 ''x'' (Fn 1) two_peers))) 0)"
proof -
  let ?w = "On 0 ''x'' (Fn 1) two_peers"
  let ?w'' = "snd (Emit 0 ''x@ack:abc'' (JObj [(''result'', JStr ''pong'')]) ?w)"
  have bound: "Events (client_at ?w 0) ''x'' = Some (Fn 1)"
    by (simp add: On_def set_Events_def)
  have returns: "call_listener ping_code (Fn 1) 0 [] (?w, []) = Inr (JStr ''pong'', (?w, [ListenerCall 1 0 []]))"
    by (simp add: ping_code_def)
  have result: "handleClientData ping_code 0
        [(''event'', JStr ''x''), (''data'', JObj []), (''ackId'', JStr ''abc'')] (?w, [])
      = Inr (?w'', [ListenerCall 1 0 []])"
    using bound returns
    by (simp add: handleClientData_wellformed [where e = "''x''" and d = "[]" and a = "Some (JStr ''abc'')"])
  have one: "written_since ?w (snd (Emit 0 ''hello'' (JObj [(''ackId'', JStr ''1'')]) ?w)) 0
     = [JObj [(''event'', JStr ''hello''), (''data'', JObj [(''ackId'', JStr ''1'')])]]"
    by (simp add: written_since_def Emit_def WriteJSON_def frame_def On_def set_Events_def
          two_peers_def createClient_def CreateIgoServer_def)
  note T = emitted_frames_have_event_and_data_only [of 0 "''hello''" "JObj [(''ackId'', JStr ''1'')]" ?w 0
      None "[]" "''x''" "Fn 1" ping_code "[]" "[]" "JStr ''pong''" ?w "[ListenerCall 1 0 []]" "''abc''"
      ?w'' "[ListenerCall 1 0 []]"]
  from T bound returns result
  have ack: "list_all (\<lambda>f. frame_keys f = [''event'', ''data'']) (written_since ?w ?w'' 0)"
    by blast
  from T
  have plain: "list_all (\<lambda>f. frame_keys f = [''event'', ''data''])
       (written_since ?w (snd (Emit 0 ''hello'' (JObj [(''ackId'', JStr ''1'')]) ?w)) 0)"
    by blast
  show ?thesis by (intro conjI one plain result ack)
qed

lemma Handle_without_hooks:
  assumes "preConnectHandler w = None" and "connectedHandler w = None"
  shows "Handle U Upgraded uuid (w, tr) =
           Inr (Some (next_client w),
                (w\<lparr>conn_at := (conn_at w)(next_conn w := \<lparr>conn_closed = False, sent = []\<rparr>),
                   next_conn := Suc (next_conn w),
                   client_at := (client_at w)(next_client w := createClient (next_conn w) uuid),
                   next_client := Suc (next_client w),
                   Clients := Clients w @ [next_client w]\<rparr>, tr))"
  using assms by (simp add: Let_def call_conn_hook_def call_client_hook_def)

text \<open>
  C1. The claim asks for a \<^verbatim>\<open>#handshake\<close> frame with the client's id as the first frame on
  an accepted connection. \<^verbatim>\<open>Handle\<close> writes nothing: after the accept, with a connected hook
  that registers a listener for \<^verbatim>\<open>ping\<close>, the connection has been sent no frame, and after
  the first \<^verbatim>\<open>ping\<close> with an ackId the only frame on it is the acknowledgement, the hook
  and the listener having run.
\<close>

theorem accepted_connection_gets_no_handshake:
  "(case Handle ping_code Upgraded ''id-1'' (OnConnected (Some 0) (CreateIgoServer None), []) of
      Inl p \<Rightarrow> False
    | Inr (None, s) \<Rightarrow> False
    | Inr (Some c, (w, tr)) \<Rightarrow>
        c = 0 \<and> Clients w = [0] \<and> tr = [ClientCall 0 0]
        \<and> sent (conn_at w (socket (client_at w c))) = []
        \<and> (case wsReader ping_code c
                   [Decoded [(''event'', JStr ''ping''), (''data'', JObj []), (''ackId'', JStr ''7'')]]
                   (w, tr) of
              Inl p \<Rightarrow> False
            | Inr (st, (w', tr')) \<Rightarrow>
                st = Reading
                \<and> tr' = [ClientCall 0 0, ListenerCall 1 0 []]
                \<and> sent (conn_at w' (socket (client_at w' c)))
                    = [JObj [(''event'', JStr ''ping@ack:7''),
                             (''data'', JObj [(''result'', JStr ''pong'')])]]))"
  by (simp add: OnConnected_def CreateIgoServer_def Let_def call_conn_hook_def
        call_client_hook_def ping_code_def On_def set_Events_def createClient_def
        handleClientData_def Emit_def WriteJSON_def frame_def)

lemma call_hook_None: "call_hook U None s = Inr s"
  by (simp add: call_hook_def)

lemma onMessage_handshake:
  "onMessage U (Some (JObj [(''event'', JStr ''#handshake''), (''data'', JObj [(''clientId'', v)])])) (c, tr) =
     (if cl_id c \<noteq> Some (JStr '''')
      then Some (Inr (c\<lparr>cl_console := cl_console c @
                        [''Received handshake event but already connected'']\<rparr>, tr))
      else Some (call_hook U (cl_connectedHandler c) (c\<lparr>cl_id := Some v\<rparr>, tr)))"
  by (simp add: onMessage_def)

text \<open>
  C7 (as amended). The close handler does not clear the identity: it calls the
  disconnected hook, which still sees the old id, and queues the reconnection; the id
  getter keeps returning the old id until the timer fires. \<^verbatim>\<open>connect\<close>, run by the
  constructor and by the timer, clears it. A handshake received while the id is empty sets
  the id to the server's value before the connected hook runs.
\<close>

theorem identity_cleared_by_connect:
  "(cl_disconnectedHandler c = None \<longrightarrow>
      onClose U (c, tr) = Inr (c\<lparr>cl_timers := cl_timers c @ [cl_reconnectTimeout c]\<rparr>, tr))
   \<and> (cl_disconnectedHandler c = Some f \<longrightarrow>
      onClose U (c, tr) =
        (case hook_fn U f c of
           Inl (e, c') \<Rightarrow> Inl (e, (c', tr @ [HookCall f]))
         | Inr c' \<Rightarrow> Inr (c'\<lparr>cl_timers := cl_timers c' @ [cl_reconnectTimeout c']\<rparr>, tr @ [HookCall f])))
   \<and> get_id (c\<lparr>cl_timers := ts\<rparr>) = get_id c
   \<and> get_id (connect c) = Some (JStr '''')
   \<and> (cl_timers c = t # ts \<longrightarrow> get_id (fst (timer_fired (c, tr))) = Some (JStr ''''))
   \<and> (get_id c = Some (JStr '''') \<longrightarrow>
        onMessage U (Some (JObj [(''event'', JStr ''#handshake''),
                                 (''data'', JObj [(''clientId'', JStr v)])])) (c, tr)
          = Some (call_hook U (cl_connectedHandler c) (c\<lparr>cl_id := Some (JStr v)\<rparr>, tr))
        \<and> get_id (c\<lparr>cl_id := Some (JStr v)\<rparr>) = Some (JStr v))"
  by (simp add: onClose_def call_hook_def get_id_def connect_def timer_fired_def
        onMessage_handshake split: sum.splits prod.splits)

theorem identity_cleared_by_connect_witness:
  "onMessage quiet_client_code
      (Some (JObj [(''event'', JStr ''#handshake''), (''data'', JObj [(''clientId'', JStr ''abc'')])]))
      (IgoClient ''ws://hub'' None, []) = Some (Inr (identified, []))
   \<and> onClose quiet_client_code (identified, []) = Inr (identified\<lparr>cl_timers := [5000]\<rparr>, [])
   \<and> get_id (fst (timer_fired (identified\<lparr>cl_timers := [5000]\<rparr>, []))) = Some (JStr '''')"
proof -
  let ?c = "IgoClient ''ws://hub'' None"
  have fresh: "get_id ?c = Some (JStr '''')" "cl_connectedHandler ?c = None"
    by (simp_all add: IgoClient_def connect_def get_id_def)
  have ident: "cl_disconnectedHandler identified = None" "cl_timers identified = []"
    "cl_reconnectTimeout identified = 5000"
    by (simp_all add: identified_def IgoClient_def connect_def)
  have timers: "cl_timers (identified\<lparr>cl_timers := [5000]\<rparr>) = 5000 # []"
    by simp
  from fresh identity_cleared_by_connect [of ?c quiet_client_code "[]" 0 "[]" 0 "''abc''"]
  have a: "onMessage quiet_client_code
      (Some (JObj [(''event'', JStr ''#handshake''), (''data'', JObj [(''clientId'', JStr ''abc'')])]))
      (?c, []) = Some (Inr (identified, []))"
    by (simp add: call_hook_None identified_def)
  from ident identity_cleared_by_connect [of identified quiet_client_code "[]" 0 "[]" 0 "''abc''"]
  have b: "onClose quiet_client_code (identified, []) = Inr (identified\<lparr>cl_timers := [5000]\<rparr>, [])"
    by simp
  from timers identity_cleared_by_connect [of "identified\<lparr>cl_timers := [5000]\<rparr>" quiet_client_code "[]" 0 "[]" 5000 "''abc''"]
  have c: "get_id (fst (timer_fired (identified\<lparr>cl_timers := [5000]\<rparr>, []))) = Some (JStr '''')"
    by simp
  show ?thesis by (intro conjI a b c)
qed

theorem identity_kept_after_close_counterexample:
  "onMessage quiet_client_code
      (Some (JObj [(''event'', JStr ''#handshake''), (''data'', JObj [(''clientId'', JStr ''abc'')])]))
      (IgoClient ''ws://hub'' None, []) = Some (Inr (identified, []))
   \<and> onClose quiet_client_code (identified, []) = Inr (identified\<lparr>cl_timers := [5000]\<rparr>, [])
   \<and> get_id (identified\<lparr>cl_timers := [5000]\<rparr>) = Some (JStr ''abc'')
   \<and> get_id (identified\<lparr>cl_timers := [5000]\<rparr>) \<noteq> Some (JStr '''')"
  by (simp add: onMessage_handshake call_hook_def onClose_def identified_def IgoClient_def
        connect_def get_id_def)

lemma once_fresh:
  "\<not> inherited e \<Longrightarrow>
   once e h c =
     Inr (c\<lparr>cl_next_closure := Suc (cl_next_closure c),
            cl_handlers := (cl_handlers c)
              (e \<mapsto> (case cl_handlers c e of None \<Rightarrow> [] | Some hs \<Rightarrow> hs)
                        @ [OnceHandler (cl_next_closure c) e h])\<rparr>)"
  by (simp add: once_def on_def Let_def)

lemma dispatch_from_end:
  "cl_handlers (fst s) key = Some hs \<Longrightarrow> length hs \<le> i \<Longrightarrow> dispatch_from U key d i s = Some (Inr s)"
  by (subst dispatch_from.simps) simp

lemma dispatch_from_step:
  "cl_handlers (fst s) key = Some hs \<Longrightarrow> i < length hs \<Longrightarrow>
   call_handler U (hs ! i) d s = Inr s' \<Longrightarrow>
   dispatch_from U key d i s = dispatch_from U key d (Suc i) s'"
  by (subst dispatch_from.simps) simp

lemma onMessage_event:
  assumes "e \<noteq> ''#handshake''" and "\<not> inherited e" and "cl_handlers (fst s) e = Some hs"
  shows "onMessage U (Some (JObj [(''event'', JStr e), (''data'', dv)])) s
           = dispatch_from U e (Some dv) 0 s"
  using assms by (simp add: onMessage_def to_key_def)

text \<open>
  What does hold of \<^verbatim>\<open>once\<close>. Server: \<^verbatim>\<open>Once\<close> stores a wrapper; the dispatch of a matching
  frame deletes the entry and only then calls the listener, so a dispatch of the same frame
  from within the listener finds no entry and calls nothing; when the listener returns
  without having registered the name again, the dispatch logs its one call and a second
  identical frame calls nothing and changes nothing. Client: with the once-wrapper the only
  handler of the event and a handler that returns and leaves the registry alone, the first
  message calls the handler once and empties the entry, and a second identical message
  calls nothing.
\<close>

lemma once_returning_handler_fires_once:
  "Events (client_at (Once p e l w0) p) e = Some (OnceWrapper e l)
   \<and> (Events (client_at w p) e = Some (OnceWrapper e (Fn h))
        \<and> listener_fn U h p d (Off p e w) = Inr (v, w')
        \<and> Events (client_at w' p) e = None \<longrightarrow>
          handleClientData U p [(''event'', JStr e), (''data'', JObj d)] (Off p e w, tr)
            = Inr (Off p e w, tr)
        \<and> handleClientData U p [(''event'', JStr e), (''data'', JObj d)] (w, tr)
            = Inr (w', tr @ [ListenerCall h p d])
        \<and> handleClientData U p [(''event'', JStr e), (''data'', JObj d)] (w', tr @ [ListenerCall h p d])
            = Inr (w', tr @ [ListenerCall h p d]))
   \<and> (\<not> inherited e \<and> e \<noteq> ''#handshake''
        \<and> cl_handlers c e = Some [OnceHandler t e (Handler g)]
        \<and> handler_fn V g (Some dv) c = Inr c'
        \<and> cl_handlers c' = cl_handlers c \<longrightarrow>
          onMessage V (Some (JObj [(''event'', JStr e), (''data'', dv)])) (c, ctr)
            = Some (Inr (c'\<lparr>cl_handlers := (cl_handlers c')(e \<mapsto> [])\<rparr>,
                         ctr @ [HandlerCall g (Some dv)]))
        \<and> onMessage V (Some (JObj [(''event'', JStr e), (''data'', dv)]))
              (c'\<lparr>cl_handlers := (cl_handlers c')(e \<mapsto> [])\<rparr>, ctr @ [HandlerCall g (Some dv)])
            = Some (Inr (c'\<lparr>cl_handlers := (cl_handlers c')(e \<mapsto> [])\<rparr>,
                         ctr @ [HandlerCall g (Some dv)])))"
proof -
  let ?F = "[(''event'', JStr e), (''data'', JObj d)]"
  have registered: "Events (client_at (Once p e l w0) p) e = Some (OnceWrapper e l)"
    by (simp add: Once_def set_Events_def)
  have server: "handleClientData U p ?F (Off p e w, tr) = Inr (Off p e w, tr)
        \<and> handleClientData U p ?F (w, tr) = Inr (w', tr @ [ListenerCall h p d])
        \<and> handleClientData U p ?F (w', tr @ [ListenerCall h p d]) = Inr (w', tr @ [ListenerCall h p d])"
    if bound: "Events (client_at w p) e = Some (OnceWrapper e (Fn h))"
      and ret: "listener_fn U h p d (Off p e w) = Inr (v, w')"
      and gone: "Events (client_at w' p) e = None"
  proof -
    have "Events (client_at (Off p e w) p) e = None"
      by (simp add: Off_def set_Events_def)
    then have inner: "handleClientData U p ?F (Off p e w, tr) = Inr (Off p e w, tr)"
      by (simp add: handleClientData_wellformed [where e = e and d = d and a = None])
    from bound ret have first: "handleClientData U p ?F (w, tr) = Inr (w', tr @ [ListenerCall h p d])"
      by (simp add: handleClientData_wellformed [where e = e and d = d and a = None])
    from gone have again: "handleClientData U p ?F (w', tr @ [ListenerCall h p d])
        = Inr (w', tr @ [ListenerCall h p d])"
      by (simp add: handleClientData_wellformed [where e = e and d = d and a = None])
    from inner first again show ?thesis by simp
  qed
  let ?M = "Some (JObj [(''event'', JStr e), (''data'', dv)])"
  let ?c'' = "c'\<lparr>cl_handlers := (cl_handlers c')(e \<mapsto> [])\<rparr>"
  let ?ctr = "ctr @ [HandlerCall g (Some dv)]"
  have client: "onMessage V ?M (c, ctr) = Some (Inr (?c'', ?ctr))
        \<and> onMessage V ?M (?c'', ?ctr) = Some (Inr (?c'', ?ctr))"
    if own: "\<not> inherited e" and ev: "e \<noteq> ''#handshake''"
      and reg: "cl_handlers c e = Some [OnceHandler t e (Handler g)]"
      and ret: "handler_fn V g (Some dv) c = Inr c'"
      and same: "cl_handlers c' = cl_handlers c"
  proof -
    from own reg same have "off e (OnceHandler t e (Handler g)) c' = Inr ?c''"
      by (simp add: off_def delete_at_def)
    with ret have call: "call_handler V ([OnceHandler t e (Handler g)] ! 0) (Some dv) (c, ctr)
        = Inr (?c'', ?ctr)"
      by simp
    have "dispatch_from V e (Some dv) 0 (c, ctr) = dispatch_from V e (Some dv) (Suc 0) (?c'', ?ctr)"
      by (rule dispatch_from_step [OF _ _ call]) (simp_all add: reg)
    also have "\<dots> = Some (Inr (?c'', ?ctr))"
      by (rule dispatch_from_end [where hs = "[]"]) simp_all
    finally have first: "onMessage V ?M (c, ctr) = Some (Inr (?c'', ?ctr))"
      using own ev reg by (simp add: onMessage_event [where hs = "[OnceHandler t e (Handler g)]"])
    have "dispatch_from V e (Some dv) 0 (?c'', ?ctr) = Some (Inr (?c'', ?ctr))"
      by (rule dispatch_from_end [where hs = "[]"]) simp_all
    then have again: "onMessage V ?M (?c'', ?ctr) = Some (Inr (?c'', ?ctr))"
      using own ev by (simp add: onMessage_event [where hs = "[]"])
    from first again show ?thesis by simp
  qed
  from registered server client show ?thesis by blast
qed

lemma once_returning_handler_fires_once_example:
  "once ''tick'' (Handler 1) (IgoClient ''ws://hub'' None) = Inr ticking
   \<and> handleClientData retrigger_code 0 [(''event'', JStr ''tick''), (''data'', JObj [])]
        (Once 0 ''tick'' (Fn 1) two_peers, [])
      = Inr (snd (Emit 0 ''fired'' JNull (Off 0 ''tick'' (Once 0 ''tick'' (Fn 1) two_peers))),
             [ListenerCall 1 0 []])
   \<and> sent (conn_at (snd (Emit 0 ''fired'' JNull (Off 0 ''tick'' (Once 0 ''tick'' (Fn 1) two_peers)))) 0)
      = [JObj [(''event'', JStr ''fired''), (''data'', JNull)]]
   \<and> handleClientData retrigger_code 0 [(''event'', JStr ''tick''), (''data'', JObj [])]
        (snd (Emit 0 ''fired'' JNull (Off 0 ''tick'' (Once 0 ''tick'' (Fn 1) two_peers))),
         [ListenerCall 1 0 []])
      = Inr (snd (Emit 0 ''fired'' JNull (Off 0 ''tick'' (Once 0 ''tick'' (Fn 1) two_peers))),
             [ListenerCall 1 0 []])
   \<and> onMessage quiet_client_code (Some (JObj [(''event'', JStr ''tick''), (''data'', JNull)]))
        (ticking, [])
      = Some (Inr (ticking\<lparr>cl_handlers := (cl_handlers ticking)(''tick'' \<mapsto> [])\<rparr>,
                   [HandlerCall 1 (Some JNull)]))
   \<and> onMessage quiet_client_code (Some (JObj [(''event'', JStr ''tick''), (''data'', JNull)]))
        (ticking\<lparr>cl_handlers := (cl_handlers ticking)(''tick'' \<mapsto> [])\<rparr>, [HandlerCall 1 (Some JNull)])
      = Some (Inr (ticking\<lparr>cl_handlers := (cl_handlers ticking)(''tick'' \<mapsto> [])\<rparr>,
                   [HandlerCall 1 (Some JNull)]))"
proof -
  let ?w = "Once 0 ''tick'' (Fn 1) two_peers"
  let ?w' = "snd (Emit 0 ''fired'' JNull (Off 0 ''tick'' ?w))"
  let ?F = "[(''event'', JStr ''tick''), (''data'', JObj [])]"
  have own: "\<not> inherited ''tick''" "''tick'' \<noteq> ''#handshake''"
    by (simp_all add: inherited_def)
  have reg: "once ''tick'' (Handler 1) (IgoClient ''ws://hub'' None) = Inr ticking"
    by (simp add: once_fresh own ticking_def IgoClient_def connect_def)
  have bound: "Events (client_at ?w 0) ''tick'' = Some (OnceWrapper ''tick'' (Fn 1))"
    by (simp add: Once_def set_Events_def)
  have gone: "Events (client_at ?w' 0) ''tick'' = None"
    by (simp add: Emit_client_at Off_def set_Events_def)
  then have "handleClientData firing_code 0 ?F (?w', []) = Inr (?w', [])"
    by (simp add: handleClientData_wellformed [where e = "''tick''" and d = "[]" and a = None])
  then have ret: "listener_fn retrigger_code 1 0 [] (Off 0 ''tick'' ?w) = Inr (JNull, ?w')"
    by (simp add: retrigger_code_def)
  have sent: "sent (conn_at ?w' 0) = [JObj [(''event'', JStr ''fired''), (''data'', JNull)]]"
    by (simp add: Emit_def WriteJSON_def frame_def Off_def Once_def set_Events_def two_peers_def
          createClient_def CreateIgoServer_def)
  have handlers: "cl_handlers ticking ''tick'' = Some [OnceHandler 0 ''tick'' (Handler 1)]"
    by (simp add: ticking_def)
  have quiet: "handler_fn quiet_client_code 1 (Some JNull) ticking = Inr ticking"
    by (simp add: quiet_client_code_def)
  note T = once_returning_handler_fires_once [of 0 "''tick''" "Fn 1" two_peers ?w 1 retrigger_code "[]" JNull ?w' "[]"
      ticking 0 1 quiet_client_code JNull ticking "[]"]
  from T bound ret gone
  have go: "handleClientData retrigger_code 0 ?F (?w, []) = Inr (?w', [ListenerCall 1 0 []])"
    "handleClientData retrigger_code 0 ?F (?w', [ListenerCall 1 0 []]) = Inr (?w', [ListenerCall 1 0 []])"
    by simp_all
  from T own handlers quiet
  have ts: "onMessage quiet_client_code (Some (JObj [(''event'', JStr ''tick''), (''data'', JNull)]))
        (ticking, [])
      = Some (Inr (ticking\<lparr>cl_handlers := (cl_handlers ticking)(''tick'' \<mapsto> [])\<rparr>,
                   [HandlerCall 1 (Some JNull)]))"
    "onMessage quiet_client_code (Some (JObj [(''event'', JStr ''tick''), (''data'', JNull)]))
        (ticking\<lparr>cl_handlers := (cl_handlers ticking)(''tick'' \<mapsto> [])\<rparr>, [HandlerCall 1 (Some JNull)])
      = Some (Inr (ticking\<lparr>cl_handlers := (cl_handlers ticking)(''tick'' \<mapsto> [])\<rparr>,
                   [HandlerCall 1 (Some JNull)]))"
    by simp_all
  show ?thesis by (intro conjI reg go sent ts)
qed

lemma tick_is_own: "\<not> inherited ''tick''" "''tick'' \<noteq> ''#handshake''"
  by (simp_all add: inherited_def)

lemma ticking_handlers: "cl_handlers ticking ''tick'' = Some [OnceHandler 0 ''tick'' (Handler 1)]"
  by (simp add: ticking_def)

lemma throwing_dispatch:
  "onMessage throwing_client_code (Some (JObj [(''event'', JStr ''tick''), (''data'', JNull)]))
     (ticking, tr)
   = Some (Inl (UserError ''boom'', (ticking, tr @ [HandlerCall 1 (Some JNull)])))"
proof -
  have "dispatch_from throwing_client_code ''tick'' (Some JNull) 0 (ticking, tr)
      = Some (Inl (UserError ''boom'', (ticking, tr @ [HandlerCall 1 (Some JNull)])))"
    by (subst dispatch_from.simps) (simp add: ticking_handlers throwing_client_code_def)
  with tick_is_own ticking_handlers show ?thesis
    by (simp add: onMessage_event [where hs = "[OnceHandler 0 ''tick'' (Handler 1)]"])
qed

text \<open>
  C5. The claim holds of the server's \<^verbatim>\<open>Once\<close> and fails on the client's \<^verbatim>\<open>once\<close>, whose
  wrapper calls the handler first and removes itself only when the handler has returned.
  After \<^verbatim>\<open>once("tick", h)\<close> with a handler that throws, the first \<^verbatim>\<open>tick\<close> message calls the
  handler and leaves the wrapper registered, and a second identical message calls the
  handler a second time.
\<close>

theorem once_handler_that_throws_fires_again:
  "once ''tick'' (Handler 1) (IgoClient ''ws://hub'' None) = Inr ticking
   \<and> onMessage throwing_client_code (Some (JObj [(''event'', JStr ''tick''), (''data'', JNull)]))
        (ticking, [])
      = Some (Inl (UserError ''boom'', (ticking, [HandlerCall 1 (Some JNull)])))
   \<and> cl_handlers ticking ''tick'' = Some [OnceHandler 0 ''tick'' (Handler 1)]
   \<and> onMessage throwing_client_code (Some (JObj [(''event'', JStr ''tick''), (''data'', JNull)]))
        (ticking, [HandlerCall 1 (Some JNull)])
      = Some (Inl (UserError ''boom'',
                   (ticking, [HandlerCall 1 (Some JNull), HandlerCall 1 (Some JNull)])))"
proof -
  have reg: "once ''tick'' (Handler 1) (IgoClient ''ws://hub'' None) = Inr ticking"
    by (simp add: once_fresh tick_is_own ticking_def IgoClient_def connect_def)
  have first: "onMessage throwing_client_code
        (Some (JObj [(''event'', JStr ''tick''), (''data'', JNull)])) (ticking, [])
      = Some (Inl (UserError ''boom'', (ticking, [HandlerCall 1 (Some JNull)])))"
    using throwing_dispatch [of "[]"] by simp
  have second: "onMessage throwing_client_code
        (Some (JObj [(''event'', JStr ''tick''), (''data'', JNull)]))
        (ticking, [HandlerCall 1 (Some JNull)])
      = Some (Inl (UserError ''boom'',
                   (ticking, [HandlerCall 1 (Some JNull), HandlerCall 1 (Some JNull)])))"
    using throwing_dispatch [of "[HandlerCall 1 (Some JNull)]"] by simp
  show ?thesis by (intro conjI reg first ticking_handlers second)
qed

text \<open>The same order lets a dispatch of the event from within the handler reach the
  wrapper again: for one message the handler's body runs twice.\<close>

lemma once_handler_retriggered_runs_twice:
  "onMessage retrigger_client_code (Some (JObj [(''event'', JStr ''tick''), (''data'', JNull)]))
     (ticking, [])
   = Some (Inr (ticking\<lparr>cl_console := [''fired'', ''fired''],
                        cl_handlers := (cl_handlers ticking)(''tick'' \<mapsto> [])\<rparr>,
                [HandlerCall 1 (Some JNull)]))"
proof -
  let ?M = "Some (JObj [(''event'', JStr ''tick''), (''data'', JNull)])"
  let ?W = "OnceHandler 0 ''tick'' (Handler 1)"
  let ?c1 = "ticking\<lparr>cl_console := cl_console ticking @ [''fired'']\<rparr>"
  let ?c3 = "ticking\<lparr>cl_console := [''fired'', ''fired''],
                     cl_handlers := (cl_handlers ticking)(''tick'' \<mapsto> [])\<rparr>"
  have console: "cl_console ticking = []"
    by (simp add: ticking_def IgoClient_def connect_def)
  have off_inner: "off ''tick'' ?W (?c1\<lparr>cl_console := cl_console ?c1 @ [''fired'']\<rparr>) = Inr ?c3"
    by (simp add: off_def tick_is_own ticking_handlers delete_at_def console)
  have inner_call: "call_handler logging_client_code ([?W] ! 0) (Some JNull) (?c1, [])
      = Inr (?c3, [HandlerCall 1 (Some JNull)])"
    using off_inner by (simp add: logging_client_code_def)
  have "dispatch_from logging_client_code ''tick'' (Some JNull) 0 (?c1, [])
      = dispatch_from logging_client_code ''tick'' (Some JNull) (Suc 0) (?c3, [HandlerCall 1 (Some JNull)])"
    by (rule dispatch_from_step [OF _ _ inner_call]) (simp_all add: ticking_handlers)
  also have "\<dots> = Some (Inr (?c3, [HandlerCall 1 (Some JNull)]))"
    by (rule dispatch_from_end [where hs = "[]"]) simp_all
  finally have "onMessage logging_client_code ?M (?c1, []) = Some (Inr (?c3, [HandlerCall 1 (Some JNull)]))"
    using tick_is_own by (simp add: onMessage_event [where hs = "[?W]"] ticking_handlers)
  then have body: "handler_fn retrigger_client_code 1 (Some JNull) ticking = Inr ?c3"
    by (simp add: retrigger_client_code_def)
  have off_outer: "off ''tick'' ?W ?c3 = Inr ?c3"
    by (simp add: off_def tick_is_own)
  have outer_call: "call_handler retrigger_client_code ([?W] ! 0) (Some JNull) (ticking, [])
      = Inr (?c3, [HandlerCall 1 (Some JNull)])"
    using body off_outer by simp
  have "dispatch_from retrigger_client_code ''tick'' (Some JNull) 0 (ticking, [])
      = dispatch_from retrigger_client_code ''tick'' (Some JNull) (Suc 0) (?c3, [HandlerCall 1 (Some JNull)])"
    by (rule dispatch_from_step [OF _ _ outer_call]) (simp_all add: ticking_handlers)
  also have "\<dots> = Some (Inr (?c3, [HandlerCall 1 (Some JNull)]))"
    by (rule dispatch_from_end [where hs = "[]"]) simp_all
  finally show ?thesis
    using tick_is_own by (simp add: onMessage_event [where hs = "[?W]"] ticking_handlers)
qed

end
